theory Spec2Isabelle
  imports Complex_Main
begin

section \<open>The mining ledger server: data model\<close>

text \<open>
  The server (\<^verbatim>\<open>src/unnamed/part_000\<close>, lines 1 to 509) is a set of HTTP handlers over a
  key-value store. JavaScript numbers are modelled as exact numbers: currency amounts and
  rates are rationals, timestamps (\<^verbatim>\<open>Date.now()\<close>, milliseconds) and counters are integers.
  Rounding of IEEE doubles is outside this model.
\<close>

record user =
  userId :: string
  email :: string
  name :: string
  balance :: rat
  totalMined :: rat
  baseMiningRate :: rat
  currentMiningRate :: rat
  adsWatchedToday :: int
  lastAdWatchTime :: int
  lastResetTime :: int
  miningStartTime :: int
  referralCode :: string
  referredBy :: "string option"
  referralCount :: int
  depositBoostCap :: int
  createdAt :: int
  canWithdraw :: bool
  withdrawEligibleAt :: int

text \<open>The object written under \<^verbatim>\<open>withdrawal:<userId>:<now>\<close> (lines 423 to 432).\<close>

record withdrawalData =
  w_userId :: string
  amount :: rat
  ecocashNumber :: string
  fullName :: string
  w_method :: string
  status :: string
  requestedAt :: int
  processedAt :: "int option"

text \<open>
  The store. The four key prefixes \<^verbatim>\<open>user:\<close>, \<^verbatim>\<open>referral:\<close>, \<^verbatim>\<open>withdrawal:\<close> and
  \<^verbatim>\<open>referral_bonus:\<close> split the key space, so the store is one map per prefix, keyed by
  what follows the prefix.
\<close>

record store =
  user_kv :: "string \<rightharpoonup> user"
  referral_kv :: "string \<rightharpoonup> string"
  withdrawal_kv :: "string \<times> int \<rightharpoonup> withdrawalData"
  referral_bonus_kv :: "string \<times> string \<rightharpoonup> bool"

text \<open>
  Every \<^verbatim>\<open>kv.set\<close> of a handler is one write event. A handler returns its response and
  the writes it issued, in order; \<open>commit\<close> applies them to the store one after the other.
\<close>

datatype kv_write =
    SetUser string user
  | SetReferral string string
  | SetWithdrawal string int withdrawalData
  | SetReferralBonus string string bool

fun kv_set :: "store \<Rightarrow> kv_write \<Rightarrow> store" where
  "kv_set kv (SetUser k v) = kv\<lparr>user_kv := (user_kv kv)(k \<mapsto> v)\<rparr>"
| "kv_set kv (SetReferral k v) = kv\<lparr>referral_kv := (referral_kv kv)(k \<mapsto> v)\<rparr>"
| "kv_set kv (SetWithdrawal k t v) = kv\<lparr>withdrawal_kv := (withdrawal_kv kv)((k, t) \<mapsto> v)\<rparr>"
| "kv_set kv (SetReferralBonus a b v) =
     kv\<lparr>referral_bonus_kv := (referral_bonus_kv kv)((a, b) \<mapsto> v)\<rparr>"

definition commit :: "store \<Rightarrow> kv_write list \<Rightarrow> store" where
  "commit kv ws = foldl kv_set kv ws"

datatype error =
    Unauthorized
  | MissingFields
  | ReferralCodeRequired
  | UserNotFound
  | DailyLimitReached
  | AlreadyReferred
  | InvalidCode
  | SelfReferral
  | ReferrerNotFound
  | BelowMinimum
  | NotYetEligible int
  | InsufficientBalance

datatype response =
    MiningStatus rat rat int int int int
  | AdWatched rat int rat
  | ReferralApplied
  | BonusCheck bool
  | DepositBoosted int
  | WithdrawalRequested string int rat

type_synonym outcome = "(error + response) \<times> kv_write list"

text \<open>
  \<^verbatim>\<open>authenticateUser\<close> (lines 43 to 57) resolves the access token through the identity
  provider; its result is the parameter \<open>auth\<close> of every handler, \<open>None\<close> when the token
  is missing or invalid. The handlers reject an empty id as well (\<^verbatim>\<open>error || !userId\<close>).
\<close>

definition authenticated :: "string option \<Rightarrow> string option" where
  "authenticated auth = (case auth of None \<Rightarrow> None | Some uid \<Rightarrow> if uid = [] then None else Some uid)"

section \<open>Accrual\<close>

text \<open>
  The settlement block, written out twice in the source with the same text: lines 168 to
  185 (mining-status) and lines 213 to 228 (watch-ad).
\<close>

definition settle :: "user \<Rightarrow> int \<Rightarrow> user" where
  "settle userData now =
     (let timeDiff = of_int (now - miningStartTime userData) / 1000;
          minedAmount = currentMiningRate userData * timeDiff;
          userData = userData\<lparr>balance := balance userData + minedAmount,
                              totalMined := totalMined userData + minedAmount,
                              miningStartTime := now\<rparr>;
          hoursSinceReset = (of_int (now - lastResetTime userData) :: rat) / (1000 * 60 * 60)
      in if hoursSinceReset \<ge> 24
         then userData\<lparr>currentMiningRate := baseMiningRate userData,
                       adsWatchedToday := 0,
                       lastResetTime := now\<rparr>
         else userData)"

text \<open>GET /mining-status, lines 155 to 197.\<close>

definition mining_status :: "store \<Rightarrow> string option \<Rightarrow> int \<Rightarrow> outcome" where
  "mining_status kv auth now =
     (case authenticated auth of
        None \<Rightarrow> (Inl Unauthorized, [])
      | Some uid \<Rightarrow>
          (case user_kv kv uid of
             None \<Rightarrow> (Inl UserNotFound, [])
           | Some userData \<Rightarrow>
               (let userData = settle userData now
                in (Inr (MiningStatus (balance userData) (currentMiningRate userData)
                           (adsWatchedToday userData) (depositBoostCap userData) now
                           (24 * 60 * 60 * 1000 - (now - lastResetTime userData))),
                    [SetUser uid userData]))))"

section \<open>Ad boosts\<close>

text \<open>The literal of line 236, the rate added by one watched ad.\<close>

definition AD_BOOST_INCREMENT :: rat where
  "AD_BOOST_INCREMENT = 1 / 10000000"

text \<open>POST /watch-ad, lines 200 to 248. The limit check returns before the only write.\<close>

definition watch_ad :: "store \<Rightarrow> string option \<Rightarrow> int \<Rightarrow> outcome" where
  "watch_ad kv auth now =
     (case authenticated auth of
        None \<Rightarrow> (Inl Unauthorized, [])
      | Some uid \<Rightarrow>
          (case user_kv kv uid of
             None \<Rightarrow> (Inl UserNotFound, [])
           | Some userData \<Rightarrow>
               (let userData = settle userData now
                in if adsWatchedToday userData \<ge> depositBoostCap userData
                   then (Inl DailyLimitReached, [])
                   else
                     (let userData = userData\<lparr>currentMiningRate :=
                                                 currentMiningRate userData + AD_BOOST_INCREMENT,
                                               adsWatchedToday := adsWatchedToday userData + 1,
                                               lastAdWatchTime := now\<rparr>
                      in (Inr (AdWatched (currentMiningRate userData) (adsWatchedToday userData)
                                 (balance userData)),
                          [SetUser uid userData])))))"

section \<open>Sign-up\<close>

definition upper_char :: "char \<Rightarrow> char" where
  "upper_char c = (let n = (of_char c :: nat) in if 97 \<le> n \<and> n \<le> 122 then char_of (n - 32) else c)"

text \<open>
  \<^verbatim>\<open>String.prototype.toUpperCase\<close> on ASCII: the letters a to z are mapped, every
  other character is left as it is. JavaScript also maps letters outside ASCII; referral
  codes are \<^verbatim>\<open>ECO\<close> followed by characters of a user id.
\<close>

definition toUpperCase :: "string \<Rightarrow> string" where
  "toUpperCase s = map upper_char s"

text \<open>Lines 60 to 62.\<close>

definition generateReferralCode :: "string \<Rightarrow> string" where
  "generateReferralCode uid = ''ECO'' @ toUpperCase (take 8 uid)"

text \<open>The record that sign-up stores for a new user, lines 104 to 123.\<close>

definition initialUserData :: "string \<Rightarrow> string \<Rightarrow> string \<Rightarrow> int \<Rightarrow> user" where
  "initialUserData uid mail nm now =
     \<lparr>userId = uid, email = mail, name = nm,
      balance = 0, totalMined = 0,
      baseMiningRate = 1 / 10000000, currentMiningRate = 1 / 10000000,
      adsWatchedToday = 0, lastAdWatchTime = 0,
      lastResetTime = now, miningStartTime = now,
      referralCode = generateReferralCode uid, referredBy = None, referralCount = 0,
      depositBoostCap = 50, createdAt = now, canWithdraw = False,
      withdrawEligibleAt = now + (7 * 24 * 60 * 60 * 1000)\<rparr>"

text \<open>The two writes of sign-up, lines 126 and 127, for the id the identity provider issued.\<close>

definition signup_writes :: "string \<Rightarrow> string \<Rightarrow> string \<Rightarrow> int \<Rightarrow> kv_write list" where
  "signup_writes uid mail nm now =
     [SetUser uid (initialUserData uid mail nm now), SetReferral (generateReferralCode uid) uid]"

section \<open>Referrals\<close>

text \<open>JavaScript truthiness of a value that is a string or \<^verbatim>\<open>null\<close>.\<close>

definition truthy :: "string option \<Rightarrow> bool" where
  "truthy v = (case v of None \<Rightarrow> False | Some s \<Rightarrow> s \<noteq> [])"

text \<open>
  POST /apply-referral, lines 251 to 309. The referrer's record is written first
  (line 303), the referee's second (line 306).
\<close>

definition apply_referral :: "store \<Rightarrow> string option \<Rightarrow> string \<Rightarrow> outcome" where
  "apply_referral kv auth code =
     (case authenticated auth of
        None \<Rightarrow> (Inl Unauthorized, [])
      | Some uid \<Rightarrow>
          if code = [] then (Inl ReferralCodeRequired, [])
          else
            (case user_kv kv uid of
               None \<Rightarrow> (Inl UserNotFound, [])
             | Some userData \<Rightarrow>
                 if truthy (referredBy userData) then (Inl AlreadyReferred, [])
                 else
                   (case referral_kv kv (toUpperCase code) of
                      None \<Rightarrow> (Inl InvalidCode, [])
                    | Some referrerId \<Rightarrow>
                        if referrerId = [] then (Inl InvalidCode, [])
                        else if referrerId = uid then (Inl SelfReferral, [])
                        else
                          (case user_kv kv referrerId of
                             None \<Rightarrow> (Inl ReferrerNotFound, [])
                           | Some referrerData \<Rightarrow>
                               (let userData = userData\<lparr>referredBy := Some referrerId\<rparr>
                                in if adsWatchedToday userData \<ge> 3
                                   then
                                     (let userData = userData\<lparr>currentMiningRate :=
                                                       currentMiningRate userData + 3 / 1000000\<rparr>;
                                          referrerData = referrerData\<lparr>currentMiningRate :=
                                                       currentMiningRate referrerData + 2 / 1000000,
                                                     referralCount := referralCount referrerData + 1\<rparr>
                                      in (Inr ReferralApplied,
                                          [SetUser referrerId referrerData, SetUser uid userData]))
                                   else (Inr ReferralApplied, [SetUser uid userData]))))))"

text \<open>POST /check-referral-bonus, lines 312 to 346.\<close>

definition check_referral_bonus :: "store \<Rightarrow> string option \<Rightarrow> outcome" where
  "check_referral_bonus kv auth =
     (case authenticated auth of
        None \<Rightarrow> (Inl Unauthorized, [])
      | Some uid \<Rightarrow>
          (case user_kv kv uid of
             None \<Rightarrow> (Inl UserNotFound, [])
           | Some userData \<Rightarrow>
               (case referredBy userData of
                  None \<Rightarrow> (Inr (BonusCheck False), [])
                | Some referrer \<Rightarrow>
                    if referrer \<noteq> [] \<and> adsWatchedToday userData \<ge> 3
                    then
                      (case user_kv kv referrer of
                         None \<Rightarrow> (Inr (BonusCheck False), [])
                       | Some referrerData \<Rightarrow>
                           (let bonusGiven = referral_bonus_kv kv (referrer, uid)
                            in if bonusGiven \<noteq> Some True \<and> totalMined userData > 0
                               then
                                 (Inr (BonusCheck True),
                                  [SetUser referrer
                                     (referrerData\<lparr>balance := balance referrerData + 5 / 100\<rparr>),
                                   SetReferralBonus referrer uid True])
                               else (Inr (BonusCheck False), [])))
                    else (Inr (BonusCheck False), []))))"

section \<open>Deposits and withdrawals\<close>

text \<open>
  POST /deposit-boost, lines 349 to 382. The amount is checked before the record is
  read; \<^verbatim>\<open>!amount\<close> holds for the number 0.
\<close>

definition deposit_boost :: "store \<Rightarrow> string option \<Rightarrow> rat \<Rightarrow> outcome" where
  "deposit_boost kv auth amt =
     (case authenticated auth of
        None \<Rightarrow> (Inl Unauthorized, [])
      | Some uid \<Rightarrow>
          if amt = 0 \<or> amt < 2 then (Inl BelowMinimum, [])
          else
            (case user_kv kv uid of
               None \<Rightarrow> (Inl UserNotFound, [])
             | Some userData \<Rightarrow>
                 (let extraCap = \<lfloor>amt / 2\<rfloor> * 50;
                      userData = userData\<lparr>depositBoostCap := depositBoostCap userData + extraCap\<rparr>
                  in (Inr (DepositBoosted (depositBoostCap userData)), [SetUser uid userData]))))"

text \<open>
  POST /request-withdrawal, lines 385 to 445. The withdrawal record is written first
  (line 437), the debited user record second (line 438).
\<close>

definition request_withdrawal ::
  "store \<Rightarrow> string option \<Rightarrow> rat \<Rightarrow> string \<Rightarrow> string \<Rightarrow> int \<Rightarrow> outcome" where
  "request_withdrawal kv auth amt ecocash payee now =
     (case authenticated auth of
        None \<Rightarrow> (Inl Unauthorized, [])
      | Some uid \<Rightarrow>
          if amt = 0 \<or> ecocash = [] \<or> payee = [] then (Inl MissingFields, [])
          else
            (case user_kv kv uid of
               None \<Rightarrow> (Inl UserNotFound, [])
             | Some userData \<Rightarrow>
                 if now < withdrawEligibleAt userData
                 then (Inl (NotYetEligible
                         \<lceil>(of_int (withdrawEligibleAt userData - now) :: rat) / (24 * 60 * 60 * 1000)\<rceil>), [])
                 else if amt < 100 then (Inl BelowMinimum, [])
                 else if balance userData < amt then (Inl InsufficientBalance, [])
                 else
                   (let withdrawalData =
                          \<lparr>w_userId = uid, amount = amt, ecocashNumber = ecocash,
                           fullName = payee, w_method = ''Ecocash'', status = ''pending'',
                           requestedAt = now, processedAt = None\<rparr>;
                        userData = userData\<lparr>balance := balance userData - amt\<rparr>
                    in (Inr (WithdrawalRequested uid now (balance userData)),
                        [SetWithdrawal uid now withdrawalData, SetUser uid userData]))))"

section \<open>Sample records and stores\<close>

text \<open>
  Two users as sign-up creates them at time 0, and variants of them in the states the
  properties below are about.
\<close>

definition alice :: user where
  "alice = initialUserData ''a1'' ''alice@example.org'' ''Alice'' 0"

definition bob :: user where
  "bob = initialUserData ''b2'' ''bob@example.org'' ''Bob'' 0"

text \<open>A record whose \<open>miningStartTime\<close> lies after the time of the request.\<close>

definition alice_ahead :: user where
  "alice_ahead = alice\<lparr>miningStartTime := 5000\<rparr>"

text \<open>Alice at her daily limit: 50 ads watched, 50 boosts on her rate.\<close>

definition alice_capped :: user where
  "alice_capped = alice\<lparr>adsWatchedToday := 50, currentMiningRate := 51 / 10000000\<rparr>"

text \<open>Bob after three ads at time 1000, not yet referred.\<close>

definition bob_three_ads :: user where
  "bob_three_ads = bob\<lparr>adsWatchedToday := 3, currentMiningRate := 4 / 10000000,
                        balance := 1 / 10000, totalMined := 1 / 10000,
                        miningStartTime := 1000, lastAdWatchTime := 1000\<rparr>"

text \<open>Bob after three ads, referred by Alice.\<close>

definition bob_referred :: user where
  "bob_referred = bob_three_ads\<lparr>referredBy := Some ''a1''\<rparr>"

text \<open>Bob with a stored balance of 99.5 and Alice with a stored balance of 500.\<close>

definition bob_short :: user where
  "bob_short = bob\<lparr>balance := 199 / 2, totalMined := 199 / 2\<rparr>"

definition alice_rich :: user where
  "alice_rich = alice\<lparr>balance := 500, totalMined := 500\<rparr>"

definition kv_of :: "user \<Rightarrow> user \<Rightarrow> store" where
  "kv_of a b =
     \<lparr>user_kv = [''a1'' \<mapsto> a, ''b2'' \<mapsto> b],
      referral_kv = [''ECOA1'' \<mapsto> ''a1'', ''ECOB2'' \<mapsto> ''b2''],
      withdrawal_kv = Map.empty,
      referral_bonus_kv = Map.empty\<rparr>"

section \<open>Settlement: properties\<close>

lemma reset_due_iff:
  "((of_int d :: rat) / (1000 * 60 * 60) \<ge> 24) = (d \<ge> 86400000)"
proof -
  have "((of_int d :: rat) / 3600000 \<ge> 24) = ((of_int d :: rat) \<ge> 24 * 3600000)"
    by (simp add: pos_le_divide_eq)
  also have "\<dots> = ((of_int d :: rat) \<ge> of_int 86400000)"
    by simp
  also have "\<dots> = (d \<ge> 86400000)"
    by (simp only: of_int_le_iff)
  finally show ?thesis by simp
qed

lemma authenticated_Some: "uid \<noteq> [] \<Longrightarrow> authenticated (Some uid) = Some uid"
  by (simp add: authenticated_def)

lemma settle_ads:
  "adsWatchedToday (settle u now) = (if now - lastResetTime u \<ge> 86400000 then 0 else adsWatchedToday u)"
  by (simp add: settle_def Let_def reset_due_iff del: of_int_diff)

lemma settle_rate:
  "currentMiningRate (settle u now) =
     (if now - lastResetTime u \<ge> 86400000 then baseMiningRate u else currentMiningRate u)"
  by (simp add: settle_def Let_def reset_due_iff del: of_int_diff)

lemma settle_cap: "depositBoostCap (settle u now) = depositBoostCap u"
  by (simp add: settle_def Let_def)

text \<open>
  C8. Settling twice at the same time: the second call changes none of the fields of the
  record, whether or not the first call rolled the daily window over.
\<close>

theorem settle_idempotent: "settle (settle r now) now = settle r now"
  by (simp add: settle_def Let_def)

text \<open>
  C3, as the code has it. The elapsed time is not clamped: the balance and \<open>totalMined\<close>
  grow by the rate times \<open>(now - miningStartTime) / 1000\<close> seconds, which is negative
  for a record whose \<open>miningStartTime\<close> lies after \<open>now\<close>, and \<open>miningStartTime\<close>
  becomes \<open>now\<close>. When \<open>miningStartTime \<le> now\<close> this is the clamped amount.
\<close>

theorem settle_accrual_unclamped:
  "balance (settle r now) - balance r
     = currentMiningRate r * (of_int (now - miningStartTime r) / 1000)
   \<and> totalMined (settle r now) - totalMined r
     = currentMiningRate r * (of_int (now - miningStartTime r) / 1000)
   \<and> miningStartTime (settle r now) = now
   \<and> (miningStartTime r \<le> now \<longrightarrow>
        balance (settle r now) - balance r
          = currentMiningRate r * (of_int (max 0 (now - miningStartTime r)) / 1000))"
  by (simp add: settle_def Let_def)

theorem settle_accrual_unclamped_witness:
  "miningStartTime alice \<le> 60000
   \<and> balance (settle alice 60000) - balance alice
       = currentMiningRate alice * (of_int (max 0 (60000 - miningStartTime alice)) / 1000)
   \<and> balance (settle alice 60000) = 6 / 1000000"
proof -
  have h: "miningStartTime alice \<le> 60000"
    by (simp add: alice_def initialUserData_def)
  have b: "balance (settle alice 60000) = 6 / 1000000"
    by (simp add: settle_def Let_def alice_def initialUserData_def)
  from settle_accrual_unclamped [of alice 60000] h b show ?thesis by blast
qed

text \<open>
  C3 as stated fails: settling a record whose \<open>miningStartTime\<close> is one second ahead
  of \<open>now\<close> lowers the balance, where the clamped formula gives no change.
\<close>

theorem settle_clamp_counterexample:
  "balance (settle alice_ahead 4000) - balance alice_ahead
     \<noteq> currentMiningRate alice_ahead
         * (of_int (max 0 (4000 - miningStartTime alice_ahead)) / 1000)"
  by (simp add: settle_def Let_def alice_ahead_def alice_def initialUserData_def)

section \<open>Ad boosts: properties\<close>

text \<open>
  C10. When watch-ad fails with the daily limit, the handler has issued no write: the
  settlement and rollover it computed are dropped and the store is the one before the call.
\<close>

theorem watch_ad_limit_no_write:
  "fst (watch_ad kv auth now) = Inl DailyLimitReached \<Longrightarrow>
     snd (watch_ad kv auth now) = [] \<and> commit kv (snd (watch_ad kv auth now)) = kv"
  by (auto simp: watch_ad_def commit_def Let_def split: option.splits if_splits)

theorem watch_ad_limit_no_write_witness:
  "fst (watch_ad (kv_of alice_capped bob) (Some ''a1'') 60000) = Inl DailyLimitReached
   \<and> settle alice_capped 60000 \<noteq> alice_capped
   \<and> snd (watch_ad (kv_of alice_capped bob) (Some ''a1'') 60000) = []
   \<and> commit (kv_of alice_capped bob) (snd (watch_ad (kv_of alice_capped bob) (Some ''a1'') 60000))
       = kv_of alice_capped bob"
proof -
  have h: "fst (watch_ad (kv_of alice_capped bob) (Some ''a1'') 60000) = Inl DailyLimitReached"
    by (simp add: watch_ad_def authenticated_def kv_of_def settle_ads settle_cap
        alice_capped_def alice_def initialUserData_def)
  have "balance (settle alice_capped 60000) \<noteq> balance alice_capped"
    by (simp add: settle_def Let_def alice_capped_def alice_def initialUserData_def)
  then have "settle alice_capped 60000 \<noteq> alice_capped" by metis
  with h watch_ad_limit_no_write [OF h] show ?thesis by blast
qed

text \<open>
  C6. For an authenticated user with a stored record, watch-ad fails with the daily limit
  exactly when the ad counter, after the rollover that the handler applies when 24 hours
  have passed since \<open>lastResetTime\<close>, has reached \<open>depositBoostCap\<close>. With a cap of 50
  and 50 ads watched the call fails inside the window; once 24 hours have passed the call
  succeeds, the stored counter is 1 and the stored rate is the rolled-over rate plus
  \<open>AD_BOOST_INCREMENT\<close>.
\<close>

theorem watch_ad_daily_limit:
  "authenticated auth = Some uid \<Longrightarrow> user_kv kv uid = Some u \<Longrightarrow>
     (fst (watch_ad kv auth now) = Inl DailyLimitReached)
       = ((if now - lastResetTime u \<ge> 86400000 then 0 else adsWatchedToday u) \<ge> depositBoostCap u)
     \<and> (depositBoostCap u = 50 \<and> adsWatchedToday u = 50 \<and> now - lastResetTime u < 86400000
          \<longrightarrow> watch_ad kv auth now = (Inl DailyLimitReached, []))
     \<and> (depositBoostCap u = 50 \<and> now - lastResetTime u \<ge> 86400000
          \<longrightarrow> (\<exists>u'. watch_ad kv auth now
                        = (Inr (AdWatched (baseMiningRate u + AD_BOOST_INCREMENT) 1 (balance u')),
                           [SetUser uid u'])
                    \<and> adsWatchedToday u' = 1
                    \<and> currentMiningRate u' = baseMiningRate u + AD_BOOST_INCREMENT
                    \<and> currentMiningRate u' = currentMiningRate (settle u now) + AD_BOOST_INCREMENT))"
  by (simp add: watch_ad_def Let_def settle_ads settle_rate settle_cap)

lemma alice_capped_fields:
  "depositBoostCap alice_capped = 50" "adsWatchedToday alice_capped = 50"
  "lastResetTime alice_capped = 0" "baseMiningRate alice_capped = 1 / 10000000"
  by (simp_all add: alice_capped_def alice_def initialUserData_def)

theorem watch_ad_daily_limit_witness:
  "watch_ad (kv_of alice_capped bob) (Some ''a1'') 86399999 = (Inl DailyLimitReached, [])
   \<and> (\<exists>u'. snd (watch_ad (kv_of alice_capped bob) (Some ''a1'') 86400000) = [SetUser ''a1'' u']
          \<and> adsWatchedToday u' = 1 \<and> currentMiningRate u' = 2 / 10000000)"
proof -
  have a: "authenticated (Some ''a1'') = Some ''a1''"
    by (simp add: authenticated_def)
  have k: "user_kv (kv_of alice_capped bob) ''a1'' = Some alice_capped"
    by (simp add: kv_of_def)
  from watch_ad_daily_limit [OF a k, of 86399999]
  have 1: "watch_ad (kv_of alice_capped bob) (Some ''a1'') 86399999 = (Inl DailyLimitReached, [])"
    by (simp add: alice_capped_fields)
  from watch_ad_daily_limit [OF a k, of 86400000]
  have 2: "\<exists>u'. snd (watch_ad (kv_of alice_capped bob) (Some ''a1'') 86400000) = [SetUser ''a1'' u']
          \<and> adsWatchedToday u' = 1 \<and> currentMiningRate u' = 2 / 10000000"
    by (auto simp: alice_capped_fields AD_BOOST_INCREMENT_def)
  from 1 2 show ?thesis by blast
qed

section \<open>Referrals: properties\<close>

text \<open>
  C7 as stated fails. Bob is already referred and posts an empty code: the handler
  rejects the missing code (line 259) before it looks at \<open>referredBy\<close> (line 269), so
  the answer is \<open>ReferralCodeRequired\<close> and not \<open>AlreadyReferred\<close>.
\<close>

theorem apply_referral_empty_code_counterexample:
  "referredBy bob_referred = Some ''a1''
   \<and> apply_referral (kv_of alice bob_referred) (Some ''b2'') [] = (Inl ReferralCodeRequired, [])
   \<and> fst (apply_referral (kv_of alice bob_referred) (Some ''b2'') []) \<noteq> Inl AlreadyReferred"
  by (simp add: apply_referral_def authenticated_def bob_referred_def)

text \<open>
  C7, as the code has it. For an authenticated user whose stored record has
  \<open>referredBy\<close> set, every call with a non-empty code fails with \<open>AlreadyReferred\<close>
  whatever the code is (valid, the caller's own, or unknown): the check comes before the
  code is looked up. A call with an empty code fails with \<open>ReferralCodeRequired\<close>. In
  both cases the handler issues no write, so neither the caller's record nor any
  referrer's record changes.
\<close>

theorem apply_referral_already_referred:
  "authenticated auth = Some uid \<Longrightarrow> user_kv kv uid = Some u \<Longrightarrow>
   referredBy u = Some r \<Longrightarrow> r \<noteq> [] \<Longrightarrow>
     (code \<noteq> [] \<longrightarrow> apply_referral kv auth code = (Inl AlreadyReferred, []))
     \<and> (code = [] \<longrightarrow> apply_referral kv auth code = (Inl ReferralCodeRequired, []))
     \<and> snd (apply_referral kv auth code) = []
     \<and> commit kv (snd (apply_referral kv auth code)) = kv"
  by (simp add: apply_referral_def truthy_def commit_def)

theorem apply_referral_already_referred_witness:
  "apply_referral (kv_of alice bob_referred) (Some ''b2'') ''ECOA1'' = (Inl AlreadyReferred, [])
   \<and> apply_referral (kv_of alice bob_referred) (Some ''b2'') ''ECOB2'' = (Inl AlreadyReferred, [])
   \<and> apply_referral (kv_of alice bob_referred) (Some ''b2'') ''nonsense'' = (Inl AlreadyReferred, [])
   \<and> apply_referral (kv_of alice bob_referred) (Some ''b2'') [] = (Inl ReferralCodeRequired, [])
   \<and> commit (kv_of alice bob_referred)
        (snd (apply_referral (kv_of alice bob_referred) (Some ''b2'') ''ECOA1''))
       = kv_of alice bob_referred"
proof -
  have a: "authenticated (Some ''b2'') = Some ''b2''"
    by (simp add: authenticated_def)
  have k: "user_kv (kv_of alice bob_referred) ''b2'' = Some bob_referred"
    by (simp add: kv_of_def)
  have r: "referredBy bob_referred = Some ''a1''"
    by (simp add: bob_referred_def)
  have n: "''a1'' \<noteq> []" by simp
  have 1: "apply_referral (kv_of alice bob_referred) (Some ''b2'') ''ECOA1''
             = (Inl AlreadyReferred, [])"
    using apply_referral_already_referred [OF a k r n, of "''ECOA1''"] by simp
  have 2: "apply_referral (kv_of alice bob_referred) (Some ''b2'') ''ECOB2''
             = (Inl AlreadyReferred, [])"
    using apply_referral_already_referred [OF a k r n, of "''ECOB2''"] by simp
  have 3: "apply_referral (kv_of alice bob_referred) (Some ''b2'') ''nonsense''
             = (Inl AlreadyReferred, [])"
    using apply_referral_already_referred [OF a k r n, of "''nonsense''"] by simp
  have 4: "apply_referral (kv_of alice bob_referred) (Some ''b2'') []
             = (Inl ReferralCodeRequired, [])"
    using apply_referral_already_referred [OF a k r n, of "[]"] by simp
  have 5: "commit (kv_of alice bob_referred)
             (snd (apply_referral (kv_of alice bob_referred) (Some ''b2'') ''ECOA1''))
             = kv_of alice bob_referred"
    using apply_referral_already_referred [OF a k r n, of "''ECOA1''"] by blast
  from 1 2 3 4 5 show ?thesis by blast
qed

lemma check_referral_bonus_marked:
  "authenticated auth = Some uid \<Longrightarrow> user_kv kv uid = Some u \<Longrightarrow> referredBy u = Some r \<Longrightarrow>
   referral_bonus_kv kv (r, uid) = Some True \<Longrightarrow>
     check_referral_bonus kv auth = (Inr (BonusCheck False), [])"
  by (simp add: check_referral_bonus_def Let_def split: option.splits)

text \<open>
  C5. The first qualifying call (the caller's record has \<open>referredBy\<close> set, at least 3
  ads watched, \<open>totalMined > 0\<close>, a stored referrer record and no marker for the pair)
  reports the bonus as granted, adds 0.05 to the referrer's stored balance and sets the
  marker. The second call, on the store the first one leaves, reports it as not granted and
  issues no write, and so does every later call on any store in which the marker is set.
\<close>

theorem check_referral_bonus_once:
  "authenticated auth = Some uid \<Longrightarrow> user_kv kv uid = Some u \<Longrightarrow>
   referredBy u = Some r \<Longrightarrow> r \<noteq> [] \<Longrightarrow> adsWatchedToday u \<ge> 3 \<Longrightarrow> totalMined u > 0 \<Longrightarrow>
   user_kv kv r = Some ru \<Longrightarrow> referral_bonus_kv kv (r, uid) = None \<Longrightarrow>
   kv' = commit kv (snd (check_referral_bonus kv auth)) \<Longrightarrow>
     fst (check_referral_bonus kv auth) = Inr (BonusCheck True)
     \<and> map_option balance (user_kv kv' r) = Some (balance ru + 5 / 100)
     \<and> referral_bonus_kv kv' (r, uid) = Some True
     \<and> check_referral_bonus kv' auth = (Inr (BonusCheck False), [])
     \<and> commit kv' (snd (check_referral_bonus kv' auth)) = kv'
     \<and> (\<forall>kv''. (\<exists>u''. user_kv kv'' uid = Some u'' \<and> referredBy u'' = Some r)
                 \<and> referral_bonus_kv kv'' (r, uid) = Some True
            \<longrightarrow> check_referral_bonus kv'' auth = (Inr (BonusCheck False), []))"
proof -
  assume a: "authenticated auth = Some uid" and k: "user_kv kv uid = Some u"
    and r: "referredBy u = Some r" and rn: "r \<noteq> []" and ads: "adsWatchedToday u \<ge> 3"
    and tm: "totalMined u > 0" and kr: "user_kv kv r = Some ru"
    and m: "referral_bonus_kv kv (r, uid) = None"
    and kv': "kv' = commit kv (snd (check_referral_bonus kv auth))"
  have first: "check_referral_bonus kv auth
      = (Inr (BonusCheck True),
         [SetUser r (ru\<lparr>balance := balance ru + 5 / 100\<rparr>), SetReferralBonus r uid True])"
    using a k r rn ads tm kr m by (simp add: check_referral_bonus_def Let_def)
  have st: "kv' = kv\<lparr>user_kv := (user_kv kv)(r \<mapsto> ru\<lparr>balance := balance ru + 5 / 100\<rparr>),
                     referral_bonus_kv := (referral_bonus_kv kv)((r, uid) \<mapsto> True)\<rparr>"
    by (simp add: kv' first commit_def)
  have bal: "map_option balance (user_kv kv' r) = Some (balance ru + 5 / 100)"
    by (simp add: st)
  have mark: "referral_bonus_kv kv' (r, uid) = Some True"
    by (simp add: st)
  have "\<exists>u'. user_kv kv' uid = Some u' \<and> referredBy u' = Some r"
    using k r kr by (cases "uid = r") (auto simp: st)
  then obtain u' where u': "user_kv kv' uid = Some u'" "referredBy u' = Some r"
    by blast
  have second: "check_referral_bonus kv' auth = (Inr (BonusCheck False), [])"
    by (rule check_referral_bonus_marked [OF a u' mark])
  have noeffect: "commit kv' (snd (check_referral_bonus kv' auth)) = kv'"
    by (simp add: second commit_def)
  have later: "\<forall>kv''. (\<exists>u''. user_kv kv'' uid = Some u'' \<and> referredBy u'' = Some r)
                 \<and> referral_bonus_kv kv'' (r, uid) = Some True
            \<longrightarrow> check_referral_bonus kv'' auth = (Inr (BonusCheck False), [])"
    using check_referral_bonus_marked [OF a] by blast
  from first bal mark second noeffect later show ?thesis by simp
qed

theorem check_referral_bonus_once_witness:
  "fst (check_referral_bonus (kv_of alice bob_referred) (Some ''b2'')) = Inr (BonusCheck True)
   \<and> map_option balance
        (user_kv (commit (kv_of alice bob_referred)
                   (snd (check_referral_bonus (kv_of alice bob_referred) (Some ''b2'')))) ''a1'')
       = Some (5 / 100)
   \<and> check_referral_bonus
        (commit (kv_of alice bob_referred)
           (snd (check_referral_bonus (kv_of alice bob_referred) (Some ''b2'')))) (Some ''b2'')
       = (Inr (BonusCheck False), [])"
proof -
  have a: "authenticated (Some ''b2'') = Some ''b2''"
    by (simp add: authenticated_def)
  have k: "user_kv (kv_of alice bob_referred) ''b2'' = Some bob_referred"
    by (simp add: kv_of_def)
  have r: "referredBy bob_referred = Some ''a1''"
    by (simp add: bob_referred_def)
  have n: "''a1'' \<noteq> []" by simp
  have ads: "adsWatchedToday bob_referred \<ge> 3"
    by (simp add: bob_referred_def bob_three_ads_def)
  have tm: "totalMined bob_referred > 0"
    by (simp add: bob_referred_def bob_three_ads_def)
  have kr: "user_kv (kv_of alice bob_referred) ''a1'' = Some alice"
    by (simp add: kv_of_def)
  have m: "referral_bonus_kv (kv_of alice bob_referred) (''a1'', ''b2'') = None"
    by (simp add: kv_of_def)
  have b: "balance alice = 0"
    by (simp add: alice_def initialUserData_def)
  from check_referral_bonus_once [OF a k r n ads tm kr m refl] b
  show ?thesis by simp
qed

lemma toUpperCase_ECOA1: "toUpperCase ''ECOA1'' = ''ECOA1''"
  by (simp add: toUpperCase_def upper_char_def)

text \<open>
  C1 at a concrete input. Bob has watched 3 ads and applies Alice's code. The call
  succeeds; Bob's rate grows by 0.000003 and Alice's \<open>referralCount\<close> by 1, as claimed,
  but Alice's rate grows by the literal 0.000002 of line 300, which is 20 times
  \<open>AD_BOOST_INCREMENT\<close> and not 2 times.
\<close>

theorem apply_referral_referrer_boost_evaluated:
  "apply_referral (kv_of alice bob_three_ads) (Some ''b2'') ''ECOA1''
     = (Inr ReferralApplied,
        [SetUser ''a1'' (alice\<lparr>currentMiningRate := currentMiningRate alice + 2 / 1000000,
                               referralCount := referralCount alice + 1\<rparr>),
         SetUser ''b2'' (bob_three_ads\<lparr>referredBy := Some ''a1'',
                                       currentMiningRate :=
                                         currentMiningRate bob_three_ads + 3 / 1000000\<rparr>)])
   \<and> adsWatchedToday bob_three_ads = 3
   \<and> (2 :: rat) / 1000000 = 20 * AD_BOOST_INCREMENT
   \<and> (2 :: rat) / 1000000 \<noteq> 2 * AD_BOOST_INCREMENT"
  by (simp add: apply_referral_def authenticated_def truthy_def Let_def kv_of_def
      toUpperCase_ECOA1 bob_three_ads_def bob_def alice_def initialUserData_def
      AD_BOOST_INCREMENT_def)

section \<open>Deposits: properties\<close>

text \<open>
  C9. For an authenticated user with a stored record, a deposit of at least 2 issues one
  write: the stored record with \<open>depositBoostCap\<close> raised by \<open>floor (amount / 2) * 50\<close>
  and every other field (balance, \<open>totalMined\<close>, rate, ad counter) as it was. A deposit
  below 2 fails with \<open>BelowMinimum\<close> and issues no write.
\<close>

theorem deposit_boost_frame:
  "authenticated auth = Some uid \<Longrightarrow> user_kv kv uid = Some u \<Longrightarrow>
     (amt \<ge> 2 \<longrightarrow>
        deposit_boost kv auth amt
          = (Inr (DepositBoosted (depositBoostCap u + \<lfloor>amt / 2\<rfloor> * 50)),
             [SetUser uid (u\<lparr>depositBoostCap := depositBoostCap u + \<lfloor>amt / 2\<rfloor> * 50\<rparr>)])
        \<and> user_kv (commit kv (snd (deposit_boost kv auth amt)))
            = (user_kv kv)(uid \<mapsto> u\<lparr>depositBoostCap := depositBoostCap u + \<lfloor>amt / 2\<rfloor> * 50\<rparr>))
     \<and> (amt < 2 \<longrightarrow>
        deposit_boost kv auth amt = (Inl BelowMinimum, [])
        \<and> commit kv (snd (deposit_boost kv auth amt)) = kv)"
  by (auto simp: deposit_boost_def Let_def commit_def)

theorem deposit_boost_frame_witness:
  "deposit_boost (kv_of alice bob) (Some ''a1'') 5
     = (Inr (DepositBoosted 150), [SetUser ''a1'' (alice\<lparr>depositBoostCap := 150\<rparr>)])
   \<and> deposit_boost (kv_of alice bob) (Some ''a1'') (3 / 2) = (Inl BelowMinimum, [])"
proof -
  have a: "authenticated (Some ''a1'') = Some ''a1''"
    by (simp add: authenticated_def)
  have k: "user_kv (kv_of alice bob) ''a1'' = Some alice"
    by (simp add: kv_of_def)
  have c: "depositBoostCap alice = 50"
    by (simp add: alice_def initialUserData_def)
  have f: "\<lfloor>(5::rat) / 2\<rfloor> = 2" by (simp add: floor_eq_iff)
  from deposit_boost_frame [OF a k, of 5] deposit_boost_frame [OF a k, of "3 / 2"] c f
  show ?thesis by simp
qed

section \<open>Withdrawals: properties\<close>

lemma request_withdrawal_some:
  "authenticated auth = Some uid \<Longrightarrow> amt \<noteq> 0 \<Longrightarrow> ecocash \<noteq> [] \<Longrightarrow> payee \<noteq> [] \<Longrightarrow>
   user_kv kv uid = Some u \<Longrightarrow>
     request_withdrawal kv auth amt ecocash payee now =
       (if now < withdrawEligibleAt u
        then (Inl (NotYetEligible
                \<lceil>(of_int (withdrawEligibleAt u - now) :: rat) / (24 * 60 * 60 * 1000)\<rceil>), [])
        else if amt < 100 then (Inl BelowMinimum, [])
        else if balance u < amt then (Inl InsufficientBalance, [])
        else (Inr (WithdrawalRequested uid now (balance u - amt)),
              [SetWithdrawal uid now
                 \<lparr>w_userId = uid, amount = amt, ecocashNumber = ecocash,
                  fullName = payee, w_method = ''Ecocash'', status = ''pending'',
                  requestedAt = now, processedAt = None\<rparr>,
               SetUser uid (u\<lparr>balance := balance u - amt\<rparr>)]))"
  by (simp add: request_withdrawal_def Let_def)

lemma request_withdrawal_error_no_write:
  "fst (request_withdrawal kv auth amt ecocash payee now) = Inl e \<Longrightarrow>
     snd (request_withdrawal kv auth amt ecocash payee now) = []"
  by (auto simp: request_withdrawal_def Let_def split: option.splits if_splits)

text \<open>
  C2 as stated fails. Bob's stored balance is 99.5 and the accrual since his
  \<open>miningStartTime\<close> is 1, so a settled balance covers a withdrawal of 100; the handler
  checks the stored balance and answers \<open>InsufficientBalance\<close>.
\<close>

theorem request_withdrawal_unsettled_counterexample:
  "fst (request_withdrawal (kv_of alice bob_short) (Some ''b2'') 100 ''0771234567'' ''Bob''
          10000000000) = Inl InsufficientBalance
   \<and> withdrawEligibleAt (settle bob_short 10000000000) \<le> 10000000000
   \<and> balance (settle bob_short 10000000000) \<ge> 100"
  by (simp add: request_withdrawal_def authenticated_def Let_def kv_of_def settle_def
      bob_short_def bob_def initialUserData_def)

text \<open>
  C2, as the code has it. The withdrawal handler does not settle: for an authenticated
  request with all fields, it succeeds exactly when \<open>withdrawEligibleAt \<le> now\<close>,
  \<open>100 \<le> amount\<close> and the amount is at most the stored balance, and a successful call
  stores the record it read with only the balance lowered (\<open>totalMined\<close> and
  \<open>miningStartTime\<close> as they were). The accrual is not lost: a later settlement of the
  debited record gives the settled balance less the amount, and the same \<open>totalMined\<close>.
\<close>

theorem request_withdrawal_stored_balance:
  "authenticated auth = Some uid \<Longrightarrow> amt \<noteq> 0 \<Longrightarrow> ecocash \<noteq> [] \<Longrightarrow> payee \<noteq> [] \<Longrightarrow>
   user_kv kv uid = Some u \<Longrightarrow>
     (\<not> isl (fst (request_withdrawal kv auth amt ecocash payee now)))
        = (withdrawEligibleAt u \<le> now \<and> 100 \<le> amt \<and> amt \<le> balance u)
     \<and> (withdrawEligibleAt u \<le> now \<and> 100 \<le> amt \<and> amt \<le> balance u \<longrightarrow>
          user_kv (commit kv (snd (request_withdrawal kv auth amt ecocash payee now)))
            = (user_kv kv)(uid \<mapsto> u\<lparr>balance := balance u - amt\<rparr>))
     \<and> balance (settle (u\<lparr>balance := balance u - amt\<rparr>) later) = balance (settle u later) - amt
     \<and> totalMined (settle (u\<lparr>balance := balance u - amt\<rparr>) later) = totalMined (settle u later)"
proof -
  assume a: "authenticated auth = Some uid" and n: "amt \<noteq> 0" "ecocash \<noteq> []" "payee \<noteq> []"
    and k: "user_kv kv uid = Some u"
  note rw = request_withdrawal_some [OF a n k, of now]
  have 1: "(\<not> isl (fst (request_withdrawal kv auth amt ecocash payee now)))
        = (withdrawEligibleAt u \<le> now \<and> 100 \<le> amt \<and> amt \<le> balance u)"
    by (auto simp: rw)
  have 2: "withdrawEligibleAt u \<le> now \<and> 100 \<le> amt \<and> amt \<le> balance u \<longrightarrow>
          user_kv (commit kv (snd (request_withdrawal kv auth amt ecocash payee now)))
            = (user_kv kv)(uid \<mapsto> u\<lparr>balance := balance u - amt\<rparr>)"
    by (auto simp: rw commit_def)
  have 3: "balance (settle (u\<lparr>balance := balance u - amt\<rparr>) later) = balance (settle u later) - amt"
    by (simp add: settle_def Let_def)
  have 4: "totalMined (settle (u\<lparr>balance := balance u - amt\<rparr>) later) = totalMined (settle u later)"
    by (simp add: settle_def Let_def)
  from 1 2 3 4 show ?thesis by blast
qed

theorem request_withdrawal_stored_balance_witness:
  "\<not> isl (fst (request_withdrawal (kv_of alice_rich bob) (Some ''a1'') 100 ''0771234567''
               ''Alice'' 700000000))
   \<and> user_kv (commit (kv_of alice_rich bob)
        (snd (request_withdrawal (kv_of alice_rich bob) (Some ''a1'') 100 ''0771234567''
               ''Alice'' 700000000))) ''a1''
       = Some (alice_rich\<lparr>balance := 400\<rparr>)
   \<and> miningStartTime (alice_rich\<lparr>balance := 400\<rparr>) = 0"
proof -
  have a: "authenticated (Some ''a1'') = Some ''a1''"
    by (simp add: authenticated_def)
  have k: "user_kv (kv_of alice_rich bob) ''a1'' = Some alice_rich"
    by (simp add: kv_of_def)
  have f: "withdrawEligibleAt alice_rich = 604800000" "balance alice_rich = 500"
    "miningStartTime alice_rich = 0"
    by (simp_all add: alice_rich_def alice_def initialUserData_def)
  from request_withdrawal_stored_balance
         [OF a _ _ _ k, of 100 "''0771234567''" "''Alice''" 700000000] f
  show ?thesis by simp
qed

text \<open>
  C4 as stated fails. A successful withdrawal issues two writes, the withdrawal record
  first. In the store after the first write the record is there and Alice's balance is
  still 500: the record is visible without the debit.
\<close>

theorem request_withdrawal_record_first_counterexample:
  "fst (request_withdrawal (kv_of alice_rich bob) (Some ''a1'') 100 ''0771234567'' ''Alice''
          700000000) = Inr (WithdrawalRequested ''a1'' 700000000 400)
   \<and> length (snd (request_withdrawal (kv_of alice_rich bob) (Some ''a1'') 100 ''0771234567''
          ''Alice'' 700000000)) = 2
   \<and> withdrawal_kv
        (commit (kv_of alice_rich bob)
           (take 1 (snd (request_withdrawal (kv_of alice_rich bob) (Some ''a1'') 100
                           ''0771234567'' ''Alice'' 700000000))))
        (''a1'', 700000000) \<noteq> None
   \<and> map_option balance
        (user_kv
           (commit (kv_of alice_rich bob)
              (take 1 (snd (request_withdrawal (kv_of alice_rich bob) (Some ''a1'') 100
                              ''0771234567'' ''Alice'' 700000000))))
           ''a1'') = Some 500"
  by (simp add: request_withdrawal_def authenticated_def Let_def kv_of_def commit_def
      alice_rich_def alice_def initialUserData_def)

text \<open>
  C4, as the code has it. For an authenticated user with a stored record, a failed request
  issues no write. A successful request issues exactly two writes: first the withdrawal
  record (the amount, status pending, \<open>processedAt\<close> null) under the key of the user and
  \<open>now\<close>, then the stored record with the balance lowered by exactly the amount. After
  both writes the store holds the record and the debited balance; after the first write
  alone it holds the record and the balance before the debit.
\<close>

theorem request_withdrawal_writes:
  "authenticated auth = Some uid \<Longrightarrow> user_kv kv uid = Some u \<Longrightarrow>
   ws = snd (request_withdrawal kv auth amt ecocash payee now) \<Longrightarrow>
     (case fst (request_withdrawal kv auth amt ecocash payee now) of
        Inl e \<Rightarrow> ws = [] \<and> commit kv ws = kv
      | Inr r \<Rightarrow>
          (\<exists>wd. ws = [SetWithdrawal uid now wd, SetUser uid (u\<lparr>balance := balance u - amt\<rparr>)]
              \<and> amount wd = amt \<and> status wd = ''pending'' \<and> processedAt wd = None
              \<and> r = WithdrawalRequested uid now (balance u - amt)
              \<and> user_kv (commit kv ws) = (user_kv kv)(uid \<mapsto> u\<lparr>balance := balance u - amt\<rparr>)
              \<and> withdrawal_kv (commit kv ws) = (withdrawal_kv kv)((uid, now) \<mapsto> wd)
              \<and> user_kv (commit kv (take 1 ws)) = user_kv kv
              \<and> withdrawal_kv (commit kv (take 1 ws)) = (withdrawal_kv kv)((uid, now) \<mapsto> wd)))"
  by (auto simp: request_withdrawal_def Let_def commit_def split: sum.splits)

theorem request_withdrawal_writes_witness:
  "fst (request_withdrawal (kv_of alice_rich bob) (Some ''a1'') 100 ''0771234567'' ''Alice''
          700000000) = Inr (WithdrawalRequested ''a1'' 700000000 400)
   \<and> map_option balance
        (user_kv (commit (kv_of alice_rich bob)
           (snd (request_withdrawal (kv_of alice_rich bob) (Some ''a1'') 100 ''0771234567''
                   ''Alice'' 700000000))) ''a1'') = Some 400
   \<and> map_option status
        (withdrawal_kv (commit (kv_of alice_rich bob)
           (snd (request_withdrawal (kv_of alice_rich bob) (Some ''a1'') 100 ''0771234567''
                   ''Alice'' 700000000))) (''a1'', 700000000)) = Some ''pending''
   \<and> request_withdrawal (kv_of alice_rich bob) (Some ''a1'') 600 ''0771234567'' ''Alice''
          700000000 = (Inl InsufficientBalance, [])
   \<and> request_withdrawal (kv_of alice_rich bob) (Some ''a1'') 50 ''0771234567'' ''Alice''
          700000000 = (Inl BelowMinimum, [])
   \<and> request_withdrawal (kv_of alice_rich bob) (Some ''a1'') 100 ''0771234567'' ''Alice''
          86400000 = (Inl (NotYetEligible 6), [])"
proof -
  have a: "authenticated (Some ''a1'') = Some ''a1''"
    by (simp add: authenticated_def)
  have k: "user_kv (kv_of alice_rich bob) ''a1'' = Some alice_rich"
    by (simp add: kv_of_def)
  have f: "withdrawEligibleAt alice_rich = 604800000" "balance alice_rich = 500"
    by (simp_all add: alice_rich_def alice_def initialUserData_def)
  have ok: "fst (request_withdrawal (kv_of alice_rich bob) (Some ''a1'') 100 ''0771234567''
                   ''Alice'' 700000000) = Inr (WithdrawalRequested ''a1'' 700000000 400)"
    by (simp add: request_withdrawal_some [OF a _ _ _ k] f)
  have e1: "fst (request_withdrawal (kv_of alice_rich bob) (Some ''a1'') 600 ''0771234567''
                   ''Alice'' 700000000) = Inl InsufficientBalance"
    by (simp add: request_withdrawal_some [OF a _ _ _ k] f)
  have e2: "fst (request_withdrawal (kv_of alice_rich bob) (Some ''a1'') 50 ''0771234567''
                   ''Alice'' 700000000) = Inl BelowMinimum"
    by (simp add: request_withdrawal_some [OF a _ _ _ k] f)
  have c: "\<lceil>(518400000::rat) / 86400000\<rceil> = 6"
    by (simp add: ceiling_eq_iff)
  have e3: "fst (request_withdrawal (kv_of alice_rich bob) (Some ''a1'') 100 ''0771234567''
                   ''Alice'' 86400000) = Inl (NotYetEligible 6)"
    by (simp add: request_withdrawal_some [OF a _ _ _ k] f c)
  from request_withdrawal_writes [OF a k refl, of 100 "''0771234567''" "''Alice''" 700000000] ok
  have 1: "map_option balance
        (user_kv (commit (kv_of alice_rich bob)
           (snd (request_withdrawal (kv_of alice_rich bob) (Some ''a1'') 100 ''0771234567''
                   ''Alice'' 700000000))) ''a1'') = Some 400
     \<and> map_option status
        (withdrawal_kv (commit (kv_of alice_rich bob)
           (snd (request_withdrawal (kv_of alice_rich bob) (Some ''a1'') 100 ''0771234567''
                   ''Alice'' 700000000))) (''a1'', 700000000)) = Some ''pending''"
    by (auto simp: f)
  from request_withdrawal_writes [OF a k refl, of 600 "''0771234567''" "''Alice''" 700000000] e1
  have 2: "snd (request_withdrawal (kv_of alice_rich bob) (Some ''a1'') 600 ''0771234567''
                   ''Alice'' 700000000) = []"
    by simp
  from request_withdrawal_writes [OF a k refl, of 50 "''0771234567''" "''Alice''" 700000000] e2
  have 3: "snd (request_withdrawal (kv_of alice_rich bob) (Some ''a1'') 50 ''0771234567''
                   ''Alice'' 700000000) = []"
    by simp
  from request_withdrawal_writes [OF a k refl, of 100 "''0771234567''" "''Alice''" 86400000] e3
  have 4: "snd (request_withdrawal (kv_of alice_rich bob) (Some ''a1'') 100 ''0771234567''
                   ''Alice'' 86400000) = []"
    by simp
  from ok 1 e1 2 e2 3 e3 4 show ?thesis
    by (simp add: prod_eq_iff)
qed

end
